theory Spec2Isabelle
  imports Main "HOL-Library.Log_Nat"
begin

section \<open>Python strings and exceptions\<close>

text \<open>
  A Python \<open>str\<close> is modelled as a \<open>string\<close>, one \<open>char\<close> per character: the \<open>char\<close>
  with the number \<open>n\<close> is the code point \<open>n\<close>, so the texts of the model are the texts
  over the code points 0 to 255 (ASCII and Latin-1), and \<open>length\<close> is \<open>len\<close>. Whitespace and
  \<open>lower\<close> are those of Python on all these code points. An exception is a value carrying
  its message (\<open>str(e)\<close>); a computation that may raise returns \<open>py_exception + 'a\<close>,
  with \<open>Inl\<close> for the raised exception.
\<close>

datatype py_exception = Exception string


definition nl :: string where
  "nl = [CHR 0x0A]"

definition dquote :: char where
  "dquote = CHR 0x22"

definition ascii_uppercase :: string where
  "ascii_uppercase = ''ABCDEFGHIJKLMNOPQRSTUVWXYZ''"

definition ascii_lowercase :: string where
  "ascii_lowercase = ''abcdefghijklmnopqrstuvwxyz''"

text \<open>
  The capital letters of Latin-1 (U+00C0 to U+00DE without the multiplication sign U+00D7)
  and their small letters (U+00E0 to U+00FE without the division sign U+00F7), in the
  same order.
\<close>

definition latin1_uppercase :: string where
  "latin1_uppercase =
     [CHR 0xC0, CHR 0xC1, CHR 0xC2, CHR 0xC3, CHR 0xC4, CHR 0xC5, CHR 0xC6, CHR 0xC7,
      CHR 0xC8, CHR 0xC9, CHR 0xCA, CHR 0xCB, CHR 0xCC, CHR 0xCD, CHR 0xCE, CHR 0xCF,
      CHR 0xD0, CHR 0xD1, CHR 0xD2, CHR 0xD3, CHR 0xD4, CHR 0xD5, CHR 0xD6,
      CHR 0xD8, CHR 0xD9, CHR 0xDA, CHR 0xDB, CHR 0xDC, CHR 0xDD, CHR 0xDE]"

definition latin1_lowercase :: string where
  "latin1_lowercase =
     [CHR 0xE0, CHR 0xE1, CHR 0xE2, CHR 0xE3, CHR 0xE4, CHR 0xE5, CHR 0xE6, CHR 0xE7,
      CHR 0xE8, CHR 0xE9, CHR 0xEA, CHR 0xEB, CHR 0xEC, CHR 0xED, CHR 0xEE, CHR 0xEF,
      CHR 0xF0, CHR 0xF1, CHR 0xF2, CHR 0xF3, CHR 0xF4, CHR 0xF5, CHR 0xF6,
      CHR 0xF8, CHR 0xF9, CHR 0xFA, CHR 0xFB, CHR 0xFC, CHR 0xFD, CHR 0xFE]"

text \<open>
  \<open>str.lower()\<close> maps every capital letter to its small letter and leaves every other
  code point up to 255 as it is.
\<close>

definition lower_char :: "char \<Rightarrow> char" where
  "lower_char c =
     (case map_of (zip (ascii_uppercase @ latin1_uppercase) (ascii_lowercase @ latin1_lowercase)) c of
        Some d \<Rightarrow> d
      | None \<Rightarrow> c)"

text \<open>
  \<open>str.upper()\<close> maps every small letter to its capital letter. Three code points up to 255
  have an uppercase form that is no single code point up to 255: U+00B5 (to U+039C),
  U+00DF (to the two letters SS) and U+00FF (to U+0178). The model leaves them as they
  are. The program uses \<open>upper\<close> once, to compare the result with the five labels of
  \<open>valid_categories\<close>; no label holds one of these forms, so the comparison fails in the
  program and in the model alike.
\<close>

definition upper_char :: "char \<Rightarrow> char" where
  "upper_char c =
     (case map_of (zip (ascii_lowercase @ latin1_lowercase) (ascii_uppercase @ latin1_uppercase)) c of
        Some d \<Rightarrow> d
      | None \<Rightarrow> c)"

text \<open>The cased letters of the labels that \<open>title\<close> is applied to.\<close>

definition islower :: "char \<Rightarrow> bool" where
  "islower c = (c \<in> set ascii_lowercase)"

definition isupper :: "char \<Rightarrow> bool" where
  "isupper c = (c \<in> set ascii_uppercase)"

text \<open>\<open>s.lower()\<close> and \<open>s.upper()\<close>, character by character.\<close>

definition lower :: "string \<Rightarrow> string" where
  "lower s = map lower_char s"

definition upper :: "string \<Rightarrow> string" where
  "upper s = map upper_char s"

text \<open>
  \<open>str.title()\<close>: a cased character that follows a cased character is lowercased, a cased
  character that follows anything else (or starts the string) is uppercased. The flag is
  Python's \<open>previous_is_cased\<close>. The program applies \<open>title\<close> to a member of
  \<open>valid_categories\<close> only, so to ASCII capitals.
\<close>

fun title_from :: "bool \<Rightarrow> string \<Rightarrow> string" where
  "title_from previous_is_cased [] = []"
| "title_from previous_is_cased (c # cs) =
     (if islower c then (if previous_is_cased then c else upper_char c) # title_from True cs
      else if isupper c then (if previous_is_cased then lower_char c else c) # title_from True cs
      else c # title_from False cs)"

definition title :: "string \<Rightarrow> string" where
  "title s = title_from False s"

text \<open>
  The code points up to 255 for which \<open>str.isspace()\<close> holds, which are also the ones that
  \<open>strip\<close> removes and \<open>split\<close> separates at: the ASCII ones, the next-line control U+0085
  and the no-break space U+00A0.
\<close>

definition whitespace :: string where
  "whitespace = [CHR 0x09, CHR 0x0A, CHR 0x0B, CHR 0x0C, CHR 0x0D,
                 CHR 0x1C, CHR 0x1D, CHR 0x1E, CHR 0x1F, CHR 0x20, CHR 0x85, CHR 0xA0]"

definition isspace :: "char \<Rightarrow> bool" where
  "isspace c = (c \<in> set whitespace)"

text \<open>\<open>str.strip()\<close> with no argument.\<close>

definition strip :: "string \<Rightarrow> string" where
  "strip s = rev (dropWhile isspace (rev (dropWhile isspace s)))"

text \<open>\<open>s.startswith(p)\<close> and the substring test \<open>k in s\<close>.\<close>

fun startswith :: "string \<Rightarrow> string \<Rightarrow> bool" where
  "startswith s [] = True"
| "startswith [] (p # ps) = False"
| "startswith (c # cs) (p # ps) = (c = p \<and> startswith cs ps)"

fun has_substring :: "string \<Rightarrow> string \<Rightarrow> bool" where
  "has_substring [] k = (k = [])"
| "has_substring (c # cs) k = (startswith (c # cs) k \<or> has_substring cs k)"

section \<open>Classifier agent (agents.py)\<close>

text \<open>
  The gateway \<open>get_granite_response\<close> is a parameter of every agent that calls it: a
  function from the prompt to the text returned, or to the exception raised.
\<close>

type_synonym gateway = "string \<Rightarrow> py_exception + string"

definition classify_prompt :: "string \<Rightarrow> string" where
  "classify_prompt ticket_text =
     ''You are a ticket classifier. Read the following message and classify it into one of the categories:'' @ nl @
     ''- IT'' @ nl @
     ''- HR'' @ nl @
     ''- Finance'' @ nl @
     ''- Admin'' @ nl @
     ''- Other'' @ nl @
     nl @
     ''Only return the category name.'' @ nl @
     nl @
     ''Message:'' @ nl @
     [dquote] @ ticket_text @ [dquote] @ '' ''"

definition valid_categories :: "string list" where
  "valid_categories = [''IT'', ''HR'', ''FINANCE'', ''ADMIN'', ''OTHER'']"

definition it_keywords :: "string list" where
  "it_keywords = [''vpn'', ''password'', ''login'', ''computer'', ''laptop'', ''software'',
                  ''network'', ''email'', ''internet'', ''wifi'', ''system'', ''technical'',
                  ''hardware'', ''mouse'', ''keyboard'', ''monitor'']"

definition hr_keywords :: "string list" where
  "hr_keywords = [''leave'', ''vacation'', ''sick'', ''holiday'', ''hr'', ''human resources'',
                  ''employment'', ''manager'', ''policy'', ''maternity'', ''paternity'']"

definition finance_keywords :: "string list" where
  "finance_keywords = [''salary'', ''payroll'', ''reimbursement'', ''expense'', ''payment'',
                       ''finance'', ''money'', ''tax'', ''bonus'', ''overtime'', ''receipt'']"

definition admin_keywords :: "string list" where
  "admin_keywords = [''admin'', ''administration'', ''office'', ''supplies'', ''calendar'',
                     ''meeting'', ''room'', ''booking'', ''facility'']"

text \<open>\<open>sum(1 for keyword in keywords if keyword in text_lower)\<close>.\<close>

definition keyword_score :: "string list \<Rightarrow> string \<Rightarrow> nat" where
  "keyword_score keywords text_lower =
     sum_list (map (\<lambda>keyword. 1) (filter (\<lambda>keyword. has_substring text_lower keyword) keywords))"

text \<open>
  \<open>max(scores, key=scores.get)\<close> walks the dictionary in insertion order and keeps the
  first key whose value is maximal: a later key replaces the current best only when its
  value is strictly greater.
\<close>

fun max_by_value :: "(string \<times> nat) list \<Rightarrow> string \<times> nat \<Rightarrow> string \<times> nat" where
  "max_by_value [] best = best"
| "max_by_value (kv # rest) best = max_by_value rest (if snd best < snd kv then kv else best)"

definition fallback_classification :: "string \<Rightarrow> string" where
  "fallback_classification ticket_text =
     (let text_lower = lower ticket_text;
          it_score = keyword_score it_keywords text_lower;
          hr_score = keyword_score hr_keywords text_lower;
          finance_score = keyword_score finance_keywords text_lower;
          admin_score = keyword_score admin_keywords text_lower;
          (max_category, max_score) =
             max_by_value [(''HR'', hr_score), (''Finance'', finance_score), (''Admin'', admin_score)]
               (''IT'', it_score)
      in if max_score = 0 then ''Other'' else max_category)"

definition classify_ticket :: "gateway \<Rightarrow> string \<Rightarrow> string" where
  "classify_ticket gateway ticket_text =
     (case gateway (classify_prompt ticket_text) of
        Inl e \<Rightarrow> fallback_classification ticket_text
      | Inr response \<Rightarrow>
          (let category = upper (strip response)
           in if category \<in> set valid_categories then title category
              else fallback_classification ticket_text))"

text \<open>
  The keyword classifier as the specification words it: the score of a category is the
  number of occurrences of its keywords in the lowercased text, every occurrence counted.
\<close>

fun occurrences :: "string \<Rightarrow> string \<Rightarrow> nat" where
  "occurrences [] k = 0"
| "occurrences (c # cs) k = (if startswith (c # cs) k then 1 else 0) + occurrences cs k"

definition occurrence_score :: "string list \<Rightarrow> string \<Rightarrow> nat" where
  "occurrence_score keywords text_lower = sum_list (map (occurrences text_lower) keywords)"

definition spec_keyword_classifier :: "string \<Rightarrow> string" where
  "spec_keyword_classifier ticket_text =
     (let text_lower = lower ticket_text;
          i = occurrence_score it_keywords text_lower;
          h = occurrence_score hr_keywords text_lower;
          f = occurrence_score finance_keywords text_lower;
          a = occurrence_score admin_keywords text_lower
      in if i = 0 \<and> h = 0 \<and> f = 0 \<and> a = 0 then ''Other''
         else if h \<le> i \<and> f \<le> i \<and> a \<le> i then ''IT''
         else if f \<le> h \<and> a \<le> h then ''HR''
         else if a \<le> f then ''Finance''
         else ''Admin'')"


section \<open>Retriever agent (agents.py)\<close>

text \<open>
  The knowledge base is a file system: a path is absent, holds a readable text, or exists
  and cannot be read (then \<open>open\<close> raises). \<open>os.path.join\<close> is the POSIX one.
\<close>

datatype kb_file = Readable string | Unreadable

type_synonym filesystem = "string \<Rightarrow> kb_file option"

definition path_join :: "string \<Rightarrow> string \<Rightarrow> string" where
  "path_join directory filename = directory @ ''/'' @ filename"

definition path_exists :: "filesystem \<Rightarrow> string \<Rightarrow> bool" where
  "path_exists fs file_path = (fs file_path \<noteq> None)"

definition read_text :: "filesystem \<Rightarrow> string \<Rightarrow> py_exception + string" where
  "read_text fs file_path =
     (case fs file_path of
        Some (Readable content) \<Rightarrow> Inr content
      | Some Unreadable \<Rightarrow> Inl (Exception ''Permission denied'')
      | None \<Rightarrow> Inl (Exception ''No such file or directory''))"

text \<open>\<open>separator.join(parts)\<close>.\<close>

fun str_join :: "string \<Rightarrow> string list \<Rightarrow> string" where
  "str_join separator [] = []"
| "str_join separator [part] = part"
| "str_join separator (part # more) = part @ separator @ str_join separator more"

definition knowledge_base_path :: string where
  "knowledge_base_path = ''knowledge_base''"

definition category_files :: "(string \<times> string) list" where
  "category_files = [(''IT'', ''vpn_policy.txt''), (''HR'', ''leave_policy.txt''),
                     (''Finance'', ''reimbursement_policy.txt''), (''Admin'', ''hardware_issuance.txt'')]"

text \<open>
  The loop \<open>for filename in [...]\<close> of the Finance and Admin branches: every file that
  exists is read, stripped and appended to \<open>contexts\<close>; a read that raises leaves the loop.
\<close>

fun read_contexts :: "filesystem \<Rightarrow> string list \<Rightarrow> string list \<Rightarrow> py_exception + string list" where
  "read_contexts fs [] contexts = Inr contexts"
| "read_contexts fs (filename # filenames) contexts =
     (let file_path = path_join knowledge_base_path filename
      in if path_exists fs file_path
         then (case read_text fs file_path of
                 Inl e \<Rightarrow> Inl e
               | Inr content \<Rightarrow> read_contexts fs filenames (contexts @ [strip content]))
         else read_contexts fs filenames contexts)"

definition joined_contexts :: "filesystem \<Rightarrow> string list \<Rightarrow> py_exception + string" where
  "joined_contexts fs filenames =
     (case read_contexts fs filenames [] of
        Inl e \<Rightarrow> Inl e
      | Inr contexts \<Rightarrow>
          Inr (if contexts \<noteq> [] then str_join (nl @ nl) contexts else ''No policy found.''))"

text \<open>The body of the \<open>try\<close> block, branch by branch in the order of the source.\<close>

definition retrieve_context_try :: "filesystem \<Rightarrow> string \<Rightarrow> py_exception + string" where
  "retrieve_context_try fs category =
     (case map_of category_files category of
        Some filename \<Rightarrow>
          (let file_path = path_join knowledge_base_path filename
           in if path_exists fs file_path
              then (case read_text fs file_path of
                      Inl e \<Rightarrow> Inl e
                    | Inr content \<Rightarrow> Inr (strip content))
              else Inr ''No policy found.'')
      | None \<Rightarrow>
          if category = ''Finance''
          then joined_contexts fs [''reimbursement_policy.txt'', ''salary_policy.txt'']
          else if category = ''Admin''
          then joined_contexts fs [''hardware_issuance.txt'', ''holiday_calendar.txt'']
          else Inr ''No policy found.'')"

definition retrieve_context :: "filesystem \<Rightarrow> string \<Rightarrow> string" where
  "retrieve_context fs category =
     (case retrieve_context_try fs category of
        Inl e \<Rightarrow> ''No policy found.''
      | Inr context \<Rightarrow> context)"

section \<open>Responder agent (agents.py)\<close>




section \<open>Python floats\<close>

text \<open>
  A finite \<open>float\<close> is the rational number it denotes. A literal, a parsed numeral and the
  exact result of an addition or subtraction are rounded to the nearest IEEE 754 binary64
  value, ties to the even significand: \<open>ilog2 a\<close> is the exponent of \<open>a\<close>, the unit in
  the last place is \<open>2\<close> to the power \<open>e - 52\<close>, and below \<open>2\<close> to the power \<open>-1022\<close> the
  spacing stays that of the subnormals. Every value of this program lies between \<open>-1\<close> and
  \<open>2\<close>, so overflow does not arise.
\<close>

type_synonym double = rat

definition pow2 :: "int \<Rightarrow> rat" where
  "pow2 e = (if 0 \<le> e then 2 ^ nat e else 1 / 2 ^ nat (- e))"

definition ilog2 :: "rat \<Rightarrow> int" where
  "ilog2 a = (let (n, d) = quotient_of a; k = bitlen n - bitlen d
              in if pow2 k \<le> a then k else k - 1)"

definition round_half_even :: "rat \<Rightarrow> int" where
  "round_half_even q = (let f = \<lfloor>q\<rfloor>; r = q - of_int f
     in if r < 1 / 2 then f else if 1 / 2 < r then f + 1 else if even f then f else f + 1)"

definition round_double :: "rat \<Rightarrow> double" where
  "round_double q = (if q = 0 then 0 else
     let a = \<bar>q\<bar>; e = max (ilog2 a) (- 1022); ulp = pow2 (e - 52)
     in sgn q * of_int (round_half_even (a / ulp)) * ulp)"

text \<open>The literal \<open>0.1\<close> is \<open>float_literal (1 / 10)\<close>; \<open>x + y\<close> and \<open>x - y\<close> on floats.\<close>

definition float_literal :: "rat \<Rightarrow> double" where
  "float_literal q = round_double q"

definition fadd :: "double \<Rightarrow> double \<Rightarrow> double" where
  "fadd x y = round_double (x + y)"

definition fsub :: "double \<Rightarrow> double \<Rightarrow> double" where
  "fsub x y = round_double (x - y)"

section \<open>Confidence agent and escalation (agents.py)\<close>

definition specific_terms :: "string list" where
  "specific_terms = [''contact'', ''portal'', ''policy'', ''procedure'', ''email'', ''phone'']"

definition error_terms :: "string list" where
  "error_terms = [''error'', ''unable'', ''technical issue'', ''try again'']"

text \<open>
  \<open>_calculate_fallback_confidence\<close>: the two \<open>for\<close> loops are folds over the term lists,
  the running \<open>confidence\<close> being the accumulator.
\<close>

definition calculate_fallback_confidence :: "string \<Rightarrow> string \<Rightarrow> double" where
  "calculate_fallback_confidence ticket_text response =
     (let confidence = float_literal (1 / 2);
          confidence = (if length response > 100 then fadd confidence (float_literal (1 / 10))
                        else confidence);
          confidence = foldl (\<lambda>confidence a_term.
                          if has_substring (lower response) (lower a_term)
                          then fadd confidence (float_literal (1 / 20)) else confidence)
                        confidence specific_terms;
          confidence = foldl (\<lambda>confidence a_term.
                          if has_substring (lower response) (lower a_term)
                          then fsub confidence (float_literal (1 / 5)) else confidence)
                        confidence error_terms
      in max (float_literal 0) (min (float_literal 1) confidence))"

definition escalation_text :: string where
  "escalation_text = ''We are forwarding this to a human support agent for further review.''"

definition should_escalate :: "double \<Rightarrow> bool \<times> string" where
  "should_escalate confidence_score =
     (if confidence_score < float_literal (6 / 10) then (True, escalation_text) else (False, []))"

text \<open>
  \<open>re.findall(r'0\.\d+|1\.0|0|1', s)\<close>: the matches from left to right, none overlapping.
  At each position the alternatives are tried in the order of the pattern: \<open>0.\<close> with the
  longest run of digits after it (at least one), then \<open>1.0\<close>, then \<open>0\<close>, then \<open>1\<close>; the
  scan goes on after the match, or one character further when nothing matches. The
  digits that \<open>\d\<close> matches are, up to code point 255, the ten ASCII digits.
\<close>

definition isdigit :: "char \<Rightarrow> bool" where
  "isdigit c = (c \<in> set ''0123456789'')"

function findall_numbers :: "string \<Rightarrow> string list" where
  "findall_numbers [] = []"
| "findall_numbers (c # cs) =
     (if c = CHR ''0'' \<and> startswith cs ''.'' \<and> takeWhile isdigit (tl cs) \<noteq> []
      then (''0.'' @ takeWhile isdigit (tl cs)) # findall_numbers (dropWhile isdigit (tl cs))
      else if c = CHR ''1'' \<and> startswith cs ''.0''
      then ''1.0'' # findall_numbers (drop 2 cs)
      else if c = CHR ''0'' then ''0'' # findall_numbers cs
      else if c = CHR ''1'' then ''1'' # findall_numbers cs
      else findall_numbers cs)"
  by pat_completeness auto
termination
proof (relation "measure length")
  show "wf (measure length)" by simp
next
  fix c :: char and cs :: string
  have "length (dropWhile isdigit (tl cs)) \<le> length (tl cs)"
    by (rule length_dropWhile_le)
  then show "(dropWhile isdigit (tl cs), c # cs) \<in> measure length"
    by simp
qed auto

text \<open>
  \<open>float(s)\<close> for an unsigned decimal numeral, with or without a fraction part, which is
  all the pattern above can hand over; on any other string the model raises, as
  \<open>ValueError\<close> does. The value of the numeral is rounded to the nearest double.
\<close>

definition digit_value :: "char \<Rightarrow> int" where
  "digit_value c =
     (case map_of (zip ''0123456789'' [0, 1, 2, 3, 4, 5, 6, 7, 8, 9]) c of Some d \<Rightarrow> d | None \<Rightarrow> 0)"

definition digits_value :: "string \<Rightarrow> int" where
  "digits_value ds = foldl (\<lambda>n d. 10 * n + digit_value d) 0 ds"

definition py_float :: "string \<Rightarrow> py_exception + double" where
  "py_float s =
     (let whole = takeWhile isdigit s; rest = dropWhile isdigit s
      in if whole \<noteq> [] \<and> rest = [] then Inr (round_double (of_int (digits_value whole)))
         else if whole \<noteq> [] \<and> startswith rest ''.'' \<and> tl rest \<noteq> [] \<and> list_all isdigit (tl rest)
         then Inr (round_double (of_int (digits_value (whole @ tl rest)) / 10 ^ length (tl rest)))
         else Inl (Exception (''could not convert string to float: '' @ s)))"

definition confidence_prompt :: "string \<Rightarrow> string \<Rightarrow> string" where
  "confidence_prompt ticket_text response =
     ''You are evaluating how confident the AI helpdesk is in the reply below.'' @ nl @
     nl @
     ''Ticket: '' @ ticket_text @ nl @
     ''Reply: '' @ response @ nl @
     nl @
     ''Respond with a number between 0.0 and 1.0 representing confidence.'' @ nl @
     ''Only return the number.''"

text \<open>
  \<open>rate_confidence\<close>: every exception of the \<open>try\<close> block, from the gateway or from
  \<open>float\<close>, ends in the heuristic of the \<open>except\<close> branch.
\<close>

definition rate_confidence :: "gateway \<Rightarrow> string \<Rightarrow> string \<Rightarrow> double" where
  "rate_confidence gateway ticket_text response =
     (case gateway (confidence_prompt ticket_text response) of
        Inl e \<Rightarrow> calculate_fallback_confidence ticket_text response
      | Inr confidence_response \<Rightarrow>
          (case findall_numbers confidence_response of
             [] \<Rightarrow> calculate_fallback_confidence ticket_text response
           | number # more \<Rightarrow>
               (case py_float number of
                  Inl e \<Rightarrow> calculate_fallback_confidence ticket_text response
                | Inr confidence \<Rightarrow> max (float_literal 0) (min (float_literal 1) confidence))))"

section \<open>Input validation (utils.py)\<close>

text \<open>
  \<open>str.split()\<close> with no argument: the maximal runs of characters that are not whitespace.
  \<open>word\<close> is the run being read.
\<close>

fun split_from :: "string \<Rightarrow> string \<Rightarrow> string list" where
  "split_from word [] = (if word = [] then [] else [word])"
| "split_from word (c # cs) =
     (if isspace c then (if word = [] then split_from [] cs else word # split_from [] cs)
      else split_from (word @ [c]) cs)"

definition split :: "string \<Rightarrow> string list" where
  "split s = split_from [] s"




section \<open>Gateway adapter (granite_client.py)\<close>




section \<open>Example inputs\<close>

text \<open>A reply of 150 characters with the terms "contact" and "policy".\<close>

definition example_reply :: string where
  "example_reply = ''Please contact the service desk and read the travel policy before you book, then send the signed form to your line manager, who will approve it today.''"

text \<open>A knowledge base that holds the four policy files of the Finance and Admin categories.\<close>

definition example_fs :: filesystem where
  "example_fs = [''knowledge_base/reimbursement_policy.txt'' \<mapsto> Readable ''Claims need a receipt.'',
                 ''knowledge_base/salary_policy.txt'' \<mapsto> Readable ''Salaries are paid on the 28th.'',
                 ''knowledge_base/hardware_issuance.txt'' \<mapsto> Readable ''Laptops are issued by the front desk.'',
                 ''knowledge_base/holiday_calendar.txt'' \<mapsto> Readable ''The site is closed on 1 May.'']"

section \<open>Notions of the specification\<close>





section \<open>Facts about the string primitives\<close>

lemma startswith_iff: "startswith s p \<longleftrightarrow> (\<exists>r. s = p @ r)"
  by (induction s p rule: startswith.induct) auto

lemma has_substring_iff: "has_substring s k \<longleftrightarrow> (\<exists>pre suf. s = pre @ k @ suf)"
proof (induction s)
  case Nil
  then show ?case by auto
next
  case (Cons c cs)
  show ?case
  proof
    assume "has_substring (c # cs) k"
    then consider "startswith (c # cs) k" | "has_substring cs k" by auto
    then show "\<exists>pre suf. c # cs = pre @ k @ suf"
    proof cases
      case 1
      then obtain r where "c # cs = k @ r" by (auto simp: startswith_iff)
      then have "c # cs = [] @ k @ r" by simp
      then show ?thesis by blast
    next
      case 2
      then obtain pre suf where "cs = pre @ k @ suf" using Cons.IH by auto
      then have "c # cs = (c # pre) @ k @ suf" by simp
      then show ?thesis by blast
    qed
  next
    assume "\<exists>pre suf. c # cs = pre @ k @ suf"
    then obtain pre suf where e: "c # cs = pre @ k @ suf" by blast
    show "has_substring (c # cs) k"
    proof (cases pre)
      case Nil
      then have "startswith (c # cs) k" using e by (auto simp: startswith_iff)
      then show ?thesis by simp
    next
      case (Cons p ps)
      then have "cs = ps @ k @ suf" using e by simp
      then have "has_substring cs k" using Cons.IH by blast
      then show ?thesis by simp
    qed
  qed
qed

section \<open>The keyword classifier\<close>

lemma keyword_score_length:
  "keyword_score kws s = length (filter (\<lambda>k. has_substring s k) kws)"
  unfolding keyword_score_def by (induction kws) auto

lemma keyword_score_card:
  "distinct kws \<Longrightarrow> keyword_score kws s = card {k \<in> set kws. has_substring s k}"
  by (simp add: keyword_score_length distinct_length_filter Int_def conj_commute)

lemma keyword_lists_distinct:
  "distinct it_keywords" "distinct hr_keywords" "distinct finance_keywords" "distinct admin_keywords"
  by (simp_all add: it_keywords_def hr_keywords_def finance_keywords_def admin_keywords_def)

lemma fallback_classification_cases:
  "fallback_classification t =
     (let i = keyword_score it_keywords (lower t);
          h = keyword_score hr_keywords (lower t);
          f = keyword_score finance_keywords (lower t);
          a = keyword_score admin_keywords (lower t)
      in if i = 0 \<and> h = 0 \<and> f = 0 \<and> a = 0 then ''Other''
         else if h \<le> i \<and> f \<le> i \<and> a \<le> i then ''IT''
         else if f \<le> h \<and> a \<le> h then ''HR''
         else if a \<le> f then ''Finance''
         else ''Admin'')"
  by (simp add: fallback_classification_def Let_def)

lemma fallback_classification_range:
  "fallback_classification t \<in> {''IT'', ''HR'', ''Finance'', ''Admin'', ''Other''}"
  by (simp add: fallback_classification_cases Let_def)

text \<open>
  C4 (as amended). The score of a category is the number of its keywords that occur in the
  lowercased text, each keyword counted once however often it occurs. The classifier
  returns the category with the highest nonzero score, the earliest of IT, HR, Finance,
  Admin among those that share it, and "Other" when the four scores are zero.
\<close>

theorem fallback_classification_first_max:
  assumes "i = card {k \<in> set it_keywords. has_substring (lower t) k}"
    and "h = card {k \<in> set hr_keywords. has_substring (lower t) k}"
    and "f = card {k \<in> set finance_keywords. has_substring (lower t) k}"
    and "a = card {k \<in> set admin_keywords. has_substring (lower t) k}"
  shows "(i = 0 \<and> h = 0 \<and> f = 0 \<and> a = 0 \<longrightarrow> fallback_classification t = ''Other'')
       \<and> (0 < i \<and> h \<le> i \<and> f \<le> i \<and> a \<le> i \<longrightarrow> fallback_classification t = ''IT'')
       \<and> (i < h \<and> f \<le> h \<and> a \<le> h \<longrightarrow> fallback_classification t = ''HR'')
       \<and> (i < f \<and> h < f \<and> a \<le> f \<longrightarrow> fallback_classification t = ''Finance'')
       \<and> (i < a \<and> h < a \<and> f < a \<longrightarrow> fallback_classification t = ''Admin'')"
proof -
  have "i = keyword_score it_keywords (lower t)" "h = keyword_score hr_keywords (lower t)"
    "f = keyword_score finance_keywords (lower t)" "a = keyword_score admin_keywords (lower t)"
    using assms by (simp_all add: keyword_score_card keyword_lists_distinct)
  then show ?thesis
    by (simp add: fallback_classification_cases Let_def)
qed

text \<open>
  The witness is the tie of the claim: one IT keyword ("vpn") and one HR keyword ("leave")
  classify as IT.
\<close>

theorem fallback_classification_first_max_witness:
  "fallback_classification ''My VPN is down since my leave'' = ''IT''"
proof -
  let ?t = "''My VPN is down since my leave''"
  have i: "keyword_score it_keywords (lower ?t) = 1" by code_simp
  have h: "keyword_score hr_keywords (lower ?t) = 1" by code_simp
  have f: "keyword_score finance_keywords (lower ?t) = 0" by code_simp
  have a: "keyword_score admin_keywords (lower ?t) = 0" by code_simp
  have "(0::nat) < 1 \<and> (1::nat) \<le> 1 \<and> (0::nat) \<le> 1 \<and> (0::nat) \<le> 1
          \<longrightarrow> fallback_classification ?t = ''IT''"
    using fallback_classification_first_max [of 1 ?t 1 0 0] i h f a
    by (simp add: keyword_score_card keyword_lists_distinct)
  then show ?thesis by simp
qed

text \<open>
  C4 (as stated) fails: with every occurrence counted, "vpn vpn vpn leave sick" has three
  IT occurrences against two HR occurrences, so the category with the highest count is
  IT; the code scores one IT keyword against two HR keywords and returns HR.
\<close>

theorem fallback_classification_counts_keywords_once:
  "occurrence_score it_keywords (lower ''vpn vpn vpn leave sick'') = 3
   \<and> occurrence_score hr_keywords (lower ''vpn vpn vpn leave sick'') = 2
   \<and> spec_keyword_classifier ''vpn vpn vpn leave sick'' = ''IT''
   \<and> fallback_classification ''vpn vpn vpn leave sick'' = ''HR''"
  by code_simp

section \<open>The classifier agent\<close>

lemma title_valid_categories:
  "title ''IT'' = ''It''" "title ''HR'' = ''Hr''" "title ''FINANCE'' = ''Finance''"
  "title ''ADMIN'' = ''Admin''" "title ''OTHER'' = ''Other''"
  by code_simp+

lemma classify_ticket_range:
  "classify_ticket gateway t \<in> {''It'', ''Hr'', ''Finance'', ''Admin'', ''Other'', ''IT'', ''HR''}"
proof (cases "gateway (classify_prompt t)")
  case (Inl e)
  then show ?thesis
    using fallback_classification_range [of t] by (auto simp: classify_ticket_def)
next
  case (Inr response)
  show ?thesis
  proof (cases "upper (strip response) \<in> set valid_categories")
    case True
    then have "title (upper (strip response)) \<in> {''It'', ''Hr'', ''Finance'', ''Admin'', ''Other''}"
      using title_valid_categories by (auto simp: valid_categories_def)
    then show ?thesis using Inr True by (auto simp: classify_ticket_def Let_def)
  next
    case False
    then show ?thesis
      using Inr fallback_classification_range [of t] by (auto simp: classify_ticket_def Let_def)
  qed
qed

text \<open>
  C1. The claim is that \<open>classify_ticket\<close> returns one of "IT", "HR", "Finance", "Admin",
  "Other" whatever the gateway does. The code breaks it where the gateway answers "IT":
  \<open>category.title()\<close> turns the accepted label "IT" into "It", which is none of the five.
\<close>

theorem classify_ticket_returns_It:
  "classify_ticket (\<lambda>prompt. Inr ''IT'') ticket_text = ''It''
   \<and> classify_ticket (\<lambda>prompt. Inr ''IT'') ticket_text \<notin> {''IT'', ''HR'', ''Finance'', ''Admin'', ''Other''}"
proof -
  have "upper (strip ''IT'') = ''IT''" by code_simp
  then have "classify_ticket (\<lambda>prompt. Inr ''IT'') ticket_text = ''It''"
    by (simp add: classify_ticket_def valid_categories_def title_valid_categories)
  then show ?thesis by simp
qed

text \<open>
  C8. When the gateway call raises, \<open>classify_ticket\<close> returns what the keyword fallback
  classifier returns on the same text.
\<close>

theorem classify_ticket_gateway_raises:
  "gateway (classify_prompt ticket_text) = Inl e \<Longrightarrow>
   classify_ticket gateway ticket_text = fallback_classification ticket_text"
  by (simp add: classify_ticket_def)

theorem classify_ticket_gateway_raises_witness:
  "classify_ticket (\<lambda>prompt. Inl (Exception ''connection refused'')) ''I can't access the VPN from home.''
     = fallback_classification ''I can't access the VPN from home.''
   \<and> fallback_classification ''I can't access the VPN from home.'' = ''IT''"
proof -
  have "fallback_classification ''I can't access the VPN from home.'' = ''IT''"
    by code_simp
  then show ?thesis
    using classify_ticket_gateway_raises
      [of "\<lambda>prompt. Inl (Exception ''connection refused'')" "''I can't access the VPN from home.''"
          "Exception ''connection refused''"]
    by simp
qed


section \<open>Floats of the confidence heuristic\<close>

lemma float_literal_values:
  "float_literal 0 = 0" "float_literal 1 = 1" "float_literal (1 / 2) = 1 / 2"
  "float_literal (1 / 10) = 3602879701896397 / 36028797018963968"
  "float_literal (1 / 20) = 3602879701896397 / 72057594037927936"
  "float_literal (1 / 5) = 3602879701896397 / 18014398509481984"
  "float_literal (6 / 10) = 5404319552844595 / 9007199254740992"
  "float_literal (7 / 10) = 3152519739159347 / 4503599627370496"
  by code_simp+

lemma heuristic_sums:
  "fadd (1 / 2) (3602879701896397 / 36028797018963968) = 5404319552844595 / 9007199254740992"
  "fadd (5404319552844595 / 9007199254740992) (3602879701896397 / 72057594037927936)
     = 5854679515581645 / 9007199254740992"
  "fadd (5854679515581645 / 9007199254740992) (3602879701896397 / 72057594037927936)
     = 6305039478318695 / 9007199254740992"
  by code_simp+

lemma lower_term_literals:
  "lower ''contact'' = ''contact''" "lower ''portal'' = ''portal''" "lower ''policy'' = ''policy''"
  "lower ''procedure'' = ''procedure''" "lower ''email'' = ''email''" "lower ''phone'' = ''phone''"
  "lower ''error'' = ''error''" "lower ''unable'' = ''unable''"
  "lower ''technical issue'' = ''technical issue''" "lower ''try again'' = ''try again''"
  by code_simp+

lemma clamp_range:
  "0 \<le> max (float_literal 0) (min (float_literal 1) c)
   \<and> max (float_literal 0) (min (float_literal 1) c) \<le> 1"
  by (simp add: float_literal_values)

lemma calculate_fallback_confidence_range:
  "0 \<le> calculate_fallback_confidence t r \<and> calculate_fallback_confidence t r \<le> 1"
  unfolding calculate_fallback_confidence_def Let_def by (rule clamp_range)

section \<open>The confidence agent\<close>

text \<open>
  C7. For every ticket, every reply and every behaviour of the gateway (a parsed number, a
  text with no number, an exception), \<open>rate_confidence\<close> returns a value between 0.0 and
  1.0, both included; so does the heuristic fallback on its own.
\<close>

theorem rate_confidence_in_unit_interval:
  "0 \<le> rate_confidence gateway ticket_text response
   \<and> rate_confidence gateway ticket_text response \<le> 1
   \<and> 0 \<le> calculate_fallback_confidence ticket_text response
   \<and> calculate_fallback_confidence ticket_text response \<le> 1"
proof -
  have h: "0 \<le> calculate_fallback_confidence ticket_text response
           \<and> calculate_fallback_confidence ticket_text response \<le> 1"
    by (rule calculate_fallback_confidence_range)
  have "0 \<le> rate_confidence gateway ticket_text response
        \<and> rate_confidence gateway ticket_text response \<le> 1"
    unfolding rate_confidence_def
    using h clamp_range by (auto split: sum.splits list.splits)
  then show ?thesis using h by simp
qed

text \<open>
  C6 (as amended). A reply longer than 100 characters that contains "contact" and "policy",
  no other specificity term and no failure term scores the double-precision sum
  ((0.5 + 0.1) + 0.05) + 0.05, which is 6305039478318695 / 2^53, printed
  0.7000000000000001: one unit in the last place above the double nearest to 0.70.
\<close>

theorem heuristic_confidence_contact_policy:
  assumes "100 < length response"
    and "has_substring (lower response) ''contact''"
    and "has_substring (lower response) ''policy''"
    and "\<not> has_substring (lower response) ''portal''"
    and "\<not> has_substring (lower response) ''procedure''"
    and "\<not> has_substring (lower response) ''email''"
    and "\<not> has_substring (lower response) ''phone''"
    and "\<not> has_substring (lower response) ''error''"
    and "\<not> has_substring (lower response) ''unable''"
    and "\<not> has_substring (lower response) ''technical issue''"
    and "\<not> has_substring (lower response) ''try again''"
  shows "calculate_fallback_confidence ticket_text response
           = fadd (fadd (fadd (float_literal (1 / 2)) (float_literal (1 / 10))) (float_literal (1 / 20)))
                  (float_literal (1 / 20))
       \<and> calculate_fallback_confidence ticket_text response = 6305039478318695 / 9007199254740992"
  unfolding calculate_fallback_confidence_def Let_def specific_terms_def error_terms_def
  using assms by (simp add: lower_term_literals float_literal_values heuristic_sums)

lemma example_reply_facts:
  "length example_reply = 150"
  "has_substring (lower example_reply) ''contact''"
  "has_substring (lower example_reply) ''policy''"
  "\<not> has_substring (lower example_reply) ''portal''"
  "\<not> has_substring (lower example_reply) ''procedure''"
  "\<not> has_substring (lower example_reply) ''email''"
  "\<not> has_substring (lower example_reply) ''phone''"
  "\<not> has_substring (lower example_reply) ''error''"
  "\<not> has_substring (lower example_reply) ''unable''"
  "\<not> has_substring (lower example_reply) ''technical issue''"
  "\<not> has_substring (lower example_reply) ''try again''"
  by code_simp+

theorem heuristic_confidence_contact_policy_witness:
  "length example_reply = 150
   \<and> calculate_fallback_confidence ''How do I claim travel costs?'' example_reply
       = 6305039478318695 / 9007199254740992"
  using heuristic_confidence_contact_policy [of example_reply "''How do I claim travel costs?''"]
    example_reply_facts
  by simp

text \<open>
  C6 (as stated) fails: on a reply of length 150 with "contact" and "policy" and no failure
  term the score is neither the double 0.70 nor the number 7/10.
\<close>

theorem heuristic_confidence_is_not_seven_tenths:
  "length example_reply = 150
   \<and> has_substring (lower example_reply) ''contact''
   \<and> has_substring (lower example_reply) ''policy''
   \<and> list_all (\<lambda>k. \<not> has_substring (lower example_reply) k) error_terms
   \<and> calculate_fallback_confidence ''How do I claim travel costs?'' example_reply \<noteq> float_literal (7 / 10)
   \<and> calculate_fallback_confidence ''How do I claim travel costs?'' example_reply \<noteq> 7 / 10"
  by code_simp

section \<open>Escalation\<close>

text \<open>
  C5. \<open>should_escalate\<close> returns true with the fixed, non-empty message exactly when the
  score is below the float 0.6, and false with the empty message from 0.6 upwards; the
  score 0.6 itself does not escalate.
\<close>

theorem should_escalate_threshold:
  "(fst (should_escalate s) \<longleftrightarrow> s < float_literal (6 / 10))
   \<and> (s < float_literal (6 / 10) \<longrightarrow> should_escalate s = (True, escalation_text))
   \<and> (float_literal (6 / 10) \<le> s \<longrightarrow> should_escalate s = (False, []))
   \<and> escalation_text \<noteq> []
   \<and> should_escalate (float_literal (6 / 10)) = (False, [])"
  by (simp add: should_escalate_def escalation_text_def)

theorem should_escalate_threshold_witness:
  "should_escalate (float_literal (59 / 100)) = (True, escalation_text)
   \<and> should_escalate (float_literal (60 / 100)) = (False, [])"
proof -
  have below: "float_literal (59 / 100) < float_literal (6 / 10)" by code_simp
  have at: "float_literal (6 / 10) \<le> float_literal (60 / 100)" by code_simp
  show ?thesis
    using should_escalate_threshold [of "float_literal (59 / 100)"]
      should_escalate_threshold [of "float_literal (60 / 100)"] below at
    by simp
qed


section \<open>The retriever agent\<close>

lemma category_files_lookup:
  "map_of category_files ''Finance'' = Some ''reimbursement_policy.txt''"
  "map_of category_files ''Admin'' = Some ''hardware_issuance.txt''"
  by (simp_all add: category_files_def)

lemma kb_paths:
  "path_join knowledge_base_path ''reimbursement_policy.txt'' = ''knowledge_base/reimbursement_policy.txt''"
  "path_join knowledge_base_path ''salary_policy.txt'' = ''knowledge_base/salary_policy.txt''"
  "path_join knowledge_base_path ''hardware_issuance.txt'' = ''knowledge_base/hardware_issuance.txt''"
  "path_join knowledge_base_path ''holiday_calendar.txt'' = ''knowledge_base/holiday_calendar.txt''"
  by (simp_all add: path_join_def knowledge_base_path_def)

text \<open>
  C2. The claim is that "Finance" returns the reimbursement text and the salary text joined
  by a blank line, and "Admin" the hardware text and the holiday calendar. The code
  returns the first file alone: both categories are keys of \<open>category_files\<close>, so the first
  branch answers and the branches that read two files are never reached.
\<close>

theorem retrieve_context_reads_first_file_only:
  assumes "fs ''knowledge_base/reimbursement_policy.txt'' = Some (Readable reimbursement)"
    and "fs ''knowledge_base/salary_policy.txt'' = Some (Readable salary)"
    and "fs ''knowledge_base/hardware_issuance.txt'' = Some (Readable hardware)"
    and "fs ''knowledge_base/holiday_calendar.txt'' = Some (Readable holidays)"
  shows "retrieve_context fs ''Finance'' = strip reimbursement
       \<and> retrieve_context fs ''Admin'' = strip hardware"
  using assms
  by (simp add: retrieve_context_def retrieve_context_try_def category_files_lookup kb_paths
      path_exists_def read_text_def)

lemma joined_contexts_example:
  "joined_contexts example_fs [''reimbursement_policy.txt'', ''salary_policy.txt'']
     = Inr (''Claims need a receipt.'' @ nl @ nl @ ''Salaries are paid on the 28th.'')"
  by code_simp

lemma example_fs_files:
  "example_fs ''knowledge_base/reimbursement_policy.txt'' = Some (Readable ''Claims need a receipt.'')"
  "example_fs ''knowledge_base/salary_policy.txt'' = Some (Readable ''Salaries are paid on the 28th.'')"
  "example_fs ''knowledge_base/hardware_issuance.txt'' = Some (Readable ''Laptops are issued by the front desk.'')"
  "example_fs ''knowledge_base/holiday_calendar.txt'' = Some (Readable ''The site is closed on 1 May.'')"
  by (simp_all add: example_fs_def)

theorem retrieve_context_reads_first_file_only_witness:
  "retrieve_context example_fs ''Finance'' = ''Claims need a receipt.''
   \<and> retrieve_context example_fs ''Finance'' \<noteq> ''Claims need a receipt.'' @ nl @ nl @ ''Salaries are paid on the 28th.''
   \<and> retrieve_context example_fs ''Admin'' = ''Laptops are issued by the front desk.''
   \<and> retrieve_context example_fs ''Admin'' \<noteq> ''Laptops are issued by the front desk.'' @ nl @ nl @ ''The site is closed on 1 May.''"
proof -
  have s: "strip ''Claims need a receipt.'' = ''Claims need a receipt.''"
    "strip ''Laptops are issued by the front desk.'' = ''Laptops are issued by the front desk.''"
    by code_simp+
  show ?thesis
    using retrieve_context_reads_first_file_only [OF example_fs_files] s by (simp add: nl_def)
qed

section \<open>The responder agent\<close>







section \<open>Input validation\<close>















section \<open>The gateway adapter\<close>













end
